theory Spec2Isabelle
  imports Complex_Main
begin

section \<open>The asset renderer \<^verbatim>\<open>create_splash.py\<close>\<close>

text \<open>
  The script draws on one mutable canvas of the imaging library and then saves it at four
  sizes. The canvas is a pixel buffer; every drawing call returns the updated buffer.
  Python's floats are read as real numbers (\<^verbatim>\<open>y / height\<close> is true division,
  \<^verbatim>\<open>math.sin\<close> is the sine), Python's integers as \<^typ>\<open>int\<close>.
\<close>

subsection \<open>Canvas and colours\<close>

type_synonym color = "int \<times> int \<times> int"

text \<open>A fill argument is a 3-tuple or a 4-tuple whose last component is an alpha value.\<close>

datatype fill = RGB int int int | RGBA int int int int

record canvas =
  size_w :: nat
  size_h :: nat
  pixels :: "int \<times> int \<Rightarrow> color"

text \<open>\<^verbatim>\<open>Image.new('RGB', (width, height))\<close>: a black image.\<close>

definition new_image :: "nat \<Rightarrow> nat \<Rightarrow> canvas" where
  "new_image w h = \<lparr>size_w = w, size_h = h, pixels = (\<lambda>p. (0, 0, 0))\<rparr>"

definition in_bounds :: "canvas \<Rightarrow> int \<times> int \<Rightarrow> bool" where
  "in_bounds cv p = (0 \<le> fst p \<and> fst p < int (size_w cv) \<and> 0 \<le> snd p \<and> snd p < int (size_h cv))"

text \<open>
  The image has mode \<^verbatim>\<open>RGB\<close> and the drawing object is made by
  \<^verbatim>\<open>ImageDraw.Draw(img)\<close> with no mode argument, so it draws in the image's own
  mode: the ink of a fill is its red, green and blue components, and painting stores the ink
  in the pixel. The alpha component of a 4-tuple takes no part.
\<close>

fun getink :: "fill \<Rightarrow> color" where
  "getink (RGB r g b) = (r, g, b)"
| "getink (RGBA r g b a) = (r, g, b)"

text \<open>Painting the pixels of a mask; pixels outside the image are left out.\<close>

definition paint :: "(int \<times> int \<Rightarrow> bool) \<Rightarrow> color \<Rightarrow> canvas \<Rightarrow> canvas" where
  "paint covered c cv = cv\<lparr>pixels := (\<lambda>p. if in_bounds cv p \<and> covered p then c else pixels cv p)\<rparr>"

text \<open>\<^verbatim>\<open>draw.point((x, y), (r, g, b))\<close>\<close>

definition draw_point :: "int \<times> int \<Rightarrow> fill \<Rightarrow> canvas \<Rightarrow> canvas" where
  "draw_point xy f cv = paint (\<lambda>p. p = xy) (getink f) cv"

subsection \<open>Gradient background\<close>

text \<open>\<^verbatim>\<open>int(x)\<close> on a float truncates towards zero.\<close>

definition py_int :: "real \<Rightarrow> int" where
  "py_int x = (if 0 \<le> x then \<lfloor>x\<rfloor> else \<lceil>x\<rceil>)"

definition width :: nat where "width = 1284"
definition height :: nat where "height = 2778"

text \<open>The body of the outer loop up to the inner loop: the colour of row \<open>y\<close>.\<close>

definition row_color :: "nat \<Rightarrow> nat \<Rightarrow> color" where
  "row_color h y =
     (let ratio = real y / real h;
          r = py_int (46 + (168 - 46) * ratio);
          g = py_int (7 + (85 - 7) * ratio);
          b = py_int (63 + (247 - 63) * ratio)
      in (r, g, b))"

definition fill_of :: "color \<Rightarrow> fill" where
  "fill_of c = (case c of (r, g, b) \<Rightarrow> RGB r g b)"

text \<open>The nested loops \<^verbatim>\<open>for y in range(height): ... for x in range(width): draw.point\<close>.\<close>

definition fill_background :: "nat \<Rightarrow> nat \<Rightarrow> canvas \<Rightarrow> canvas" where
  "fill_background w h cv =
     fold (\<lambda>y cv'. fold (\<lambda>x cv''. draw_point (int x, int y) (fill_of (row_color h y)) cv'')
                          [0..<w] cv')
          [0..<h] cv"

text \<open>The canvas after lines 7 to 19: the new image with the gradient drawn.\<close>

definition background :: canvas where
  "background = fill_background width height (new_image width height)"

text \<open>
  The specification's variant: one whole-row fill per row. A row fill paints the pixels
  \<open>(x, y)\<close> with \<open>0 \<le> x < w\<close> in one step.
\<close>

definition fill_row :: "nat \<Rightarrow> nat \<Rightarrow> color \<Rightarrow> canvas \<Rightarrow> canvas" where
  "fill_row w y c cv = paint (\<lambda>p. snd p = int y \<and> 0 \<le> fst p \<and> fst p < int w) c cv"

definition spec_fill_background_rows :: "nat \<Rightarrow> nat \<Rightarrow> canvas \<Rightarrow> canvas" where
  "spec_fill_background_rows w h cv = fold (\<lambda>y cv'. fill_row w y (row_color h y) cv') [0..<h] cv"


subsection \<open>The imaging library\<close>

text \<open>
  What the script does not decide itself is a parameter of the model: which pixels the
  library's rasteriser covers for an ellipse and a polygon, the coverage mask of a text
  (drawn with the default font, anchored \<^verbatim>\<open>mm\<close>), and which calls raise.
\<close>

type_synonym box = "int \<times> int \<times> int \<times> int"

text \<open>
  An exception is an instance of \<^verbatim>\<open>Exception\<close>, with the text that \<^verbatim>\<open>str\<close> gives, or
  one of the other subclasses of \<^verbatim>\<open>BaseException\<close> (\<^verbatim>\<open>KeyboardInterrupt\<close>,
  \<^verbatim>\<open>SystemExit\<close>, \<^verbatim>\<open>GeneratorExit\<close>), with its name.
\<close>

datatype exn = Exc string | BaseExc string

text \<open>
  The places where the function calls out, in the order of the source: \<^verbatim>\<open>Image.new\<close>,
  \<^verbatim>\<open>ImageDraw.Draw\<close>, the \<^verbatim>\<open>draw.point\<close> at \<open>(x, y)\<close>, the decorative circle \<open>i\<close>, the glow
  circle \<open>i\<close>, the logo disk, the \<^verbatim>\<open>math\<close> calls for point \<open>i\<close> of curl \<open>c\<close>, the two
  polygons, the scissors blade \<open>i\<close>, the call \<open>k\<close> of the \<^verbatim>\<open>try\<close> block, the \<^verbatim>\<open>print\<close>
  number \<open>k\<close> (0 in the handler, then lines 110 and 125), the save of a file and the resize
  to a side length.
\<close>

datatype site =
    ImageNew | DrawNew | PointSite nat nat | CircleSite nat | GlowSite nat | DiskSite
  | MathSite nat nat | CurlSite | Curl2Site | BladeSite nat | TextSite nat | PrintSite nat
  | SaveSite string | ResizeSite nat

record lib =
  ellipse_px :: "box \<Rightarrow> int \<times> int \<Rightarrow> bool"
  polygon_px :: "(real \<times> real) list \<Rightarrow> int \<times> int \<Rightarrow> bool"
  text_mask :: "int \<times> int \<Rightarrow> string \<Rightarrow> int \<times> int \<Rightarrow> int"
  fault :: "site \<Rightarrow> exn option"

definition draw_ellipse :: "lib \<Rightarrow> box \<Rightarrow> fill \<Rightarrow> canvas \<Rightarrow> canvas" where
  "draw_ellipse L bx f cv = paint (ellipse_px L bx) (getink f) cv"

definition draw_polygon :: "lib \<Rightarrow> (real \<times> real) list \<Rightarrow> fill \<Rightarrow> canvas \<Rightarrow> canvas" where
  "draw_polygon L pts f cv = paint (polygon_px L pts) (getink f) cv"

text \<open>
  A text is not stored but blended: the font gives every pixel a coverage from 0 to 255,
  and each channel becomes \<open>(old * (255 - m) + ink * m) / 255\<close>, rounded the way the
  library divides by 255.
\<close>

definition div255 :: "int \<Rightarrow> int" where
  "div255 a = (let tmp = a + 128 in (tmp div 256 + tmp) div 256)"

definition blend :: "int \<Rightarrow> int \<Rightarrow> int \<Rightarrow> int" where
  "blend m old ink = div255 (old * (255 - m) + ink * m)"

definition blend_color :: "int \<Rightarrow> color \<Rightarrow> color \<Rightarrow> color" where
  "blend_color m old ink =
     (case (old, ink) of ((r, g, b), (ir, ig, ib)) \<Rightarrow> (blend m r ir, blend m g ig, blend m b ib))"

definition coverage :: "lib \<Rightarrow> int \<times> int \<Rightarrow> string \<Rightarrow> int \<times> int \<Rightarrow> int" where
  "coverage L xy s p = max 0 (min 255 (text_mask L xy s p))"

definition draw_text :: "lib \<Rightarrow> int \<times> int \<Rightarrow> string \<Rightarrow> fill \<Rightarrow> canvas \<Rightarrow> canvas" where
  "draw_text L xy s f cv =
     cv\<lparr>pixels := (\<lambda>p. if in_bounds cv p
                        then blend_color (coverage L xy s p) (pixels cv p) (getink f)
                        else pixels cv p)\<rparr>"

text \<open>\<^verbatim>\<open>range(start, stop, step)\<close>; the script only uses positive steps.\<close>

function py_range :: "int \<Rightarrow> int \<Rightarrow> int \<Rightarrow> int list" where
  "py_range start stop step =
     (if 0 < step \<and> start < stop then start # py_range (start + step) stop step else [])"
  by pat_completeness auto
termination
  by (relation "measure (\<lambda>(start, stop, step). nat (stop - start))") auto

subsection \<open>Decorative circles, glow and logo disk\<close>

definition circles :: "(int \<times> int \<times> int \<times> fill) list" where
  "circles =
     [(200, 300, 60, RGBA 255 255 255 25),
      (1000, 400, 45, RGBA 255 255 255 35),
      (150, 2200, 75, RGBA 255 255 255 20),
      (1100, 2000, 50, RGBA 255 255 255 30)]"

definition draw_circles :: "lib \<Rightarrow> canvas \<Rightarrow> canvas" where
  "draw_circles L cv =
     fold (\<lambda>(x, y, r, color) cv'. draw_ellipse L (x - r, y - r, x + r, y + r) color cv') circles cv"

definition center_x :: int where "center_x = int width div 2"
definition center_y :: int where "center_y = int height div 2 - 200"
definition logo_radius :: int where "logo_radius = 200"

definition draw_glow :: "lib \<Rightarrow> canvas \<Rightarrow> canvas" where
  "draw_glow L cv =
     fold (\<lambda>i cv'.
             let alpha = 50 - i * 15;
                 radius = logo_radius + i * 20
             in draw_ellipse L (center_x - radius, center_y - radius,
                                center_x + radius, center_y + radius)
                  (RGBA 255 255 255 alpha) cv')
          (py_range 0 3 1) cv"

definition draw_logo_disk :: "lib \<Rightarrow> canvas \<Rightarrow> canvas" where
  "draw_logo_disk L cv =
     draw_ellipse L (center_x - logo_radius, center_y - logo_radius,
                     center_x + logo_radius, center_y + logo_radius) (RGB 255 255 255) cv"

subsection \<open>The two curls and the scissors\<close>

text \<open>\<^verbatim>\<open>math.radians\<close>\<close>

definition radians :: "real \<Rightarrow> real" where
  "radians d = d * pi / 180"

definition curl_center_x :: int where "curl_center_x = center_x"
definition curl_center_y :: int where "curl_center_y = center_y - 30"

definition curl_points :: "(real \<times> real) list" where
  "curl_points =
     map (\<lambda>angle.
            let radius = 80 + 30 * sin (radians (real_of_int (angle * 2)));
                x = real_of_int curl_center_x + radius * cos (radians (real_of_int angle));
                y = real_of_int curl_center_y + radius * sin (radians (real_of_int angle))
            in (x, y))
         (py_range 0 270 5)"

definition draw_curl :: "lib \<Rightarrow> canvas \<Rightarrow> canvas" where
  "draw_curl L cv =
     (if length curl_points > 2 then draw_polygon L curl_points (RGB 114 9 183) cv else cv)"

definition curl2_points :: "(real \<times> real) list" where
  "curl2_points =
     map (\<lambda>angle.
            let radius = 50 + 20 * sin (radians (real_of_int angle * 1.5));
                x = real_of_int (curl_center_x + 60) + radius * cos (radians (real_of_int angle));
                y = real_of_int (curl_center_y - 20) + radius * sin (radians (real_of_int angle))
            in (x, y))
         (py_range 30 200 8)"

definition draw_curl2 :: "lib \<Rightarrow> canvas \<Rightarrow> canvas" where
  "draw_curl2 L cv =
     (if length curl2_points > 2 then draw_polygon L curl2_points (RGB 168 85 247) cv else cv)"

definition scissors_x :: int where "scissors_x = center_x + 80"
definition scissors_y :: int where "scissors_y = center_y + 80"

definition blade1 :: box where
  "blade1 = (scissors_x - 15, scissors_y - 15, scissors_x + 15, scissors_y + 15)"

definition blade2 :: box where
  "blade2 = (scissors_x + 20, scissors_y - 15, scissors_x + 50, scissors_y + 15)"

definition draw_scissors :: "lib \<Rightarrow> canvas \<Rightarrow> canvas" where
  "draw_scissors L cv =
     draw_ellipse L blade2 (RGB 255 107 107) (draw_ellipse L blade1 (RGB 255 107 107) cv)"

text \<open>The canvas when the \<^verbatim>\<open>try\<close> block is entered.\<close>

definition logo_canvas :: "lib \<Rightarrow> canvas" where
  "logo_canvas L =
     draw_scissors L (draw_curl2 L (draw_curl L (draw_logo_disk L (draw_glow L
       (draw_circles L background)))))"

subsection \<open>The text step\<close>

text \<open>
  The body of the \<^verbatim>\<open>try\<close> block makes five drawing calls: two texts and three dots.
  What lies between them is integer arithmetic.
\<close>

datatype call = TextCall "int \<times> int" string fill | EllipseCall box fill

fun do_call :: "lib \<Rightarrow> call \<Rightarrow> canvas \<Rightarrow> canvas" where
  "do_call L (TextCall xy s f) cv = draw_text L xy s f cv"
| "do_call L (EllipseCall bx f) cv = draw_ellipse L bx f cv"

definition text_calls :: "call list" where
  "text_calls =
     (let title_y = center_y + 300;
          subtitle_y = title_y + 60;
          dot_y = subtitle_y + 100
      in [TextCall (center_x, title_y) ''CurlMap'' (RGB 255 255 255),
          TextCall (center_x, subtitle_y) ''Hair Stylist Platform'' (RGB 255 255 255)]
         @ map (\<lambda>(i, x_offset).
                  let alpha = 150 + (int i * 30) mod 105
                  in EllipseCall (center_x + x_offset - 8, dot_y - 8,
                                  center_x + x_offset + 8, dot_y + 8)
                       (RGBA 255 255 255 alpha))
               (enumerate 0 [- 45, 0, 45]))"

text \<open>
  Running the calls of the \<^verbatim>\<open>try\<close> block from call number \<open>k\<close> on: the first call
  that raises ends the block; the canvas keeps what the earlier calls drew. The result is
  the canvas and the exception that left the block, if any.
\<close>

fun run_try :: "lib \<Rightarrow> nat \<Rightarrow> call list \<Rightarrow> canvas \<Rightarrow> canvas \<times> exn option" where
  "run_try L k [] cv = (cv, None)"
| "run_try L k (c # cs) cv =
     (case fault L (TextSite k) of
        Some e \<Rightarrow> (cv, Some e)
      | None \<Rightarrow> run_try L (Suc k) cs (do_call L c cv))"

definition render :: "lib \<Rightarrow> canvas \<times> exn option" where
  "render L = run_try L 0 text_calls (logo_canvas L)"

subsection \<open>Resizing\<close>

text \<open>
  \<^verbatim>\<open>img.resize(size, Image.Resampling.LANCZOS)\<close> with no box: the library resamples the
  whole image, first along the rows and then along the columns. For the output index
  \<open>xx\<close> it takes the source indices of a window around
  \<open>center = (xx + 0.5) * scale\<close>, weighs them with the Lanczos kernel of support 3,
  normalises the weights, turns them into fixed point numbers with 22 bits, and clips the
  rounded sum to a byte.
\<close>

definition sinc_filter :: "real \<Rightarrow> real" where
  "sinc_filter x = (if x = 0 then 1 else sin (x * pi) / (x * pi))"

definition lanczos_filter :: "real \<Rightarrow> real" where
  "lanczos_filter x = (if - 3 \<le> x \<and> x < 3 then sinc_filter x * sinc_filter (x / 3) else 0)"

text \<open>The first source index of the window of output index \<open>xx\<close> and its length.\<close>

definition window :: "nat \<Rightarrow> nat \<Rightarrow> nat \<Rightarrow> int \<times> nat" where
  "window in_size out_size xx =
     (let scale = real in_size / real out_size;
          filterscale = max scale 1;
          support = 3 * filterscale;
          center = (real xx + 0.5) * scale;
          xmin = max 0 (py_int (center - support + 0.5));
          xmax = min (int in_size) (py_int (center + support + 0.5))
      in (xmin, nat (xmax - xmin)))"

text \<open>The fixed point weights of the window.\<close>

definition coefficients :: "nat \<Rightarrow> nat \<Rightarrow> nat \<Rightarrow> int list" where
  "coefficients in_size out_size xx =
     (let scale = real in_size / real out_size;
          filterscale = max scale 1;
          center = (real xx + 0.5) * scale;
          ss = 1 / filterscale;
          xmin = fst (window in_size out_size xx);
          w = map (\<lambda>x. lanczos_filter ((real x + real_of_int xmin - center + 0.5) * ss))
                [0..<snd (window in_size out_size xx)];
          ww = sum_list w;
          k = map (\<lambda>v. if ww \<noteq> 0 then v / ww else v) w
      in map (\<lambda>v. if v < 0 then py_int (- 0.5 + v * 2 ^ 22) else py_int (0.5 + v * 2 ^ 22)) k)"

definition clip8 :: "int \<Rightarrow> int" where
  "clip8 v = max 0 (min 255 (v div 2 ^ 22))"

text \<open>One output value: the clipped weighted sum of the source values of the window.\<close>

definition convolve :: "(int \<Rightarrow> int) \<Rightarrow> int \<Rightarrow> int list \<Rightarrow> int" where
  "convolve src xmin kk =
     clip8 (2 ^ 21 + sum_list (map (\<lambda>(i, k). src (xmin + int i) * k) (enumerate 0 kk)))"

fun channel :: "nat \<Rightarrow> color \<Rightarrow> int" where
  "channel i (r, g, b) = (if i = 0 then r else if i = 1 then g else b)"

definition resample_h :: "canvas \<Rightarrow> nat \<Rightarrow> nat \<Rightarrow> int \<Rightarrow> nat \<Rightarrow> int" where
  "resample_h cv out_w c y xx =
     convolve (\<lambda>x. channel c (pixels cv (x, y)))
       (fst (window (size_w cv) out_w xx)) (coefficients (size_w cv) out_w xx)"

definition resample :: "canvas \<Rightarrow> nat \<times> nat \<Rightarrow> nat \<Rightarrow> nat \<Rightarrow> nat \<Rightarrow> int" where
  "resample cv sz c xx yy =
     convolve (\<lambda>y. resample_h cv (fst sz) c y xx)
       (fst (window (size_h cv) (snd sz) yy)) (coefficients (size_h cv) (snd sz) yy)"

definition resize :: "nat \<times> nat \<Rightarrow> canvas \<Rightarrow> canvas" where
  "resize sz cv =
     \<lparr>size_w = fst sz, size_h = snd sz,
      pixels = (\<lambda>(x, y).
         if 0 \<le> x \<and> x < int (fst sz) \<and> 0 \<le> y \<and> y < int (snd sz)
         then (resample cv sz 0 (nat x) (nat y), resample cv sz 1 (nat x) (nat y),
               resample cv sz 2 (nat x) (nat y))
         else (0, 0, 0))\<rparr>"




subsection \<open>Running the function\<close>






fun first_fault :: "(site \<Rightarrow> exn option) \<Rightarrow> site list \<Rightarrow> exn option" where
  "first_fault f [] = None"
| "first_fault f (s # ss) = (case f s of Some e \<Rightarrow> Some e | None \<Rightarrow> first_fault f ss)"





definition output_names :: "string list" where
  "output_names = [''splash.png'', ''adaptive-icon.png'', ''icon.png'', ''notification-icon.png'']"



subsection \<open>Geometry of the logo\<close>




subsection \<open>The primary curl as the specification words it\<close>

text \<open>
  Angles 0, 5, ..., 265 degrees (the stop value 270 is not sampled); the radius is
  \<open>80 + 30 sin (2 angle)\<close>; the centre is the logo centre \<open>(width / 2, height / 2 - 200)\<close>
  moved up by 30 pixels.
\<close>

definition spec_curl_vertex :: "real \<Rightarrow> real \<times> real" where
  "spec_curl_vertex deg =
     (let \<theta> = deg * pi / 180;
          \<rho> = 80 + 30 * sin (2 * \<theta>)
      in (real width / 2 + \<rho> * cos \<theta>, (real height / 2 - 200 - 30) + \<rho> * sin \<theta>))"

definition spec_primary_curl :: "(real \<times> real) list" where
  "spec_primary_curl = map (\<lambda>k. spec_curl_vertex (5 * real k)) [0..<54]"

subsection \<open>Library instances for evaluation\<close>

text \<open>
  An instance of the library parameters on which the model can be evaluated: an ellipse
  covers the pixels of its equation, polygons cover nothing, a text has the coverage 206 at
  the pixel left of its anchor and 0 elsewhere, and no call raises.
\<close>

definition ref_lib :: lib where
  "ref_lib =
     \<lparr>ellipse_px = (\<lambda>(x0, y0, x1, y1) (x, y).
          (2 * x - x0 - x1)\<^sup>2 * (y1 - y0)\<^sup>2 + (2 * y - y0 - y1)\<^sup>2 * (x1 - x0)\<^sup>2
            \<le> (x1 - x0)\<^sup>2 * (y1 - y0)\<^sup>2),
      polygon_px = (\<lambda>pts p. False),
      text_mask = (\<lambda>xy s p. if p = (fst xy - 1, snd xy) then 206 else 0),
      fault = (\<lambda>s. None)\<rparr>"








subsection \<open>Properties of the gradient\<close>

lemma paint_size [simp]: "size_w (paint m c cv) = size_w cv" "size_h (paint m c cv) = size_h cv"
  by (simp_all add: paint_def)

lemma in_bounds_paint [simp]: "in_bounds (paint m c cv) = in_bounds cv"
  by (simp add: in_bounds_def fun_eq_iff)

lemma pixels_paint: "pixels (paint m c cv) p = (if in_bounds cv p \<and> m p then c else pixels cv p)"
  by (simp add: paint_def)

lemma canvas_eqI: "size_w a = size_w b \<Longrightarrow> size_h a = size_h b \<Longrightarrow> (\<And>p. pixels a p = pixels b p) \<Longrightarrow> (a::canvas) = b"
  by (rule canvas.equality) (auto simp: fun_eq_iff)

lemma paint_paint_same:
  "paint m2 c (paint m1 c cv) = paint (\<lambda>p. m1 p \<or> m2 p) c cv"
  by (rule canvas_eqI) (auto simp: pixels_paint)

lemma paint_none: "paint (\<lambda>p. False) c cv = cv"
  by (rule canvas_eqI) (auto simp: pixels_paint)

lemma fl: "\<lfloor>real_of_int b + real_of_int d * (real y / real h)\<rfloor> = b + (d * int y) div int h"
proof -
    have "real_of_int d * (real y / real h) = real_of_int (d * int y) / real_of_int (int h)"
      by simp
    then show ?thesis
      by (simp only: int_add_floor [symmetric] floor_divide_of_int_eq)
qed

lemma getink_fill_of [simp]: "getink (fill_of c) = c"
  by (cases c) (simp add: fill_of_def)

lemma inner_loop_paint:
  "fold (\<lambda>x cv''. draw_point (int x, int y) (fill_of c) cv'') [0..<n] cv = fill_row n y c cv"
proof (induction n)
  case 0
  have "(\<lambda>p::int \<times> int. snd p = int y \<and> 0 \<le> fst p \<and> fst p < int 0) = (\<lambda>p. False)"
    by (auto simp: fun_eq_iff)
  then show ?case by (simp add: fill_row_def paint_none)
next
  case (Suc n)
  have "(\<lambda>p. (snd p = int y \<and> 0 \<le> fst p \<and> fst p < int n) \<or> p = (int n, int y))
        = (\<lambda>p. snd p = int y \<and> 0 \<le> fst p \<and> fst p < int (Suc n))"
    by (auto simp: fun_eq_iff)
  with Suc show ?case
    by (simp add: draw_point_def paint_paint_same fill_row_def)
qed

lemma row_color_div:
  assumes "0 < h"
  shows "row_color h y = (46 + (122 * int y) div int h, 7 + (78 * int y) div int h,
                          63 + (184 * int y) div int h)"
proof -
  have nn: "0 \<le> real_of_int b + real_of_int d * (real y / real h)" if "0 \<le> b" "0 \<le> d" for b d :: int
    using that by simp
  have r: "py_int (46 + (168 - 46) * (real y / real h)) = 46 + (122 * int y) div int h"
    using fl [of 46 122 y h] nn [of 46 122] by (simp add: py_int_def)
  have g: "py_int (7 + (85 - 7) * (real y / real h)) = 7 + (78 * int y) div int h"
    using fl [of 7 78 y h] nn [of 7 78] by (simp add: py_int_def)
  have b: "py_int (63 + (247 - 63) * (real y / real h)) = 63 + (184 * int y) div int h"
    using fl [of 63 184 y h] nn [of 63 184] by (simp add: py_int_def)
  show ?thesis
    by (simp only: row_color_def Let_def r g b)
qed

lemma fill_background_rows: "fill_background w h cv = spec_fill_background_rows w h cv"
  by (simp add: fill_background_def spec_fill_background_rows_def inner_loop_paint)

lemma fill_row_simps [simp]:
  "size_w (fill_row w y c cv) = size_w cv" "size_h (fill_row w y c cv) = size_h cv"
  "in_bounds (fill_row w y c cv) = in_bounds cv"
  "pixels (fill_row w y c cv) p =
     (if in_bounds cv p \<and> snd p = int y \<and> 0 \<le> fst p \<and> fst p < int w then c else pixels cv p)"
  by (simp_all add: fill_row_def pixels_paint)

lemma rows_size [simp]:
  "size_w (fold (\<lambda>y cv'. fill_row w y (f y) cv') ys cv) = size_w cv"
  "size_h (fold (\<lambda>y cv'. fill_row w y (f y) cv') ys cv) = size_h cv"
  by (induction ys arbitrary: cv) simp_all

lemma rows_pixel:
  "pixels (fold (\<lambda>y cv'. fill_row w y (f y) cv') [0..<n] cv) (x, y) =
     (if in_bounds cv (x, y) \<and> 0 \<le> x \<and> x < int w \<and> 0 \<le> y \<and> y < int n then f (nat y) else pixels cv (x, y))"
proof (induction n)
  case 0
  then show ?case by auto
next
  case (Suc n)
  have ib: "in_bounds (fold (\<lambda>y cv'. fill_row w y (f y) cv') [0..<n] cv) = in_bounds cv"
    by (simp add: in_bounds_def fun_eq_iff)
  show ?case
    using Suc by (auto simp: ib)
qed

lemma fill_background_pixel:
  assumes "x < w" "y < h" "w \<le> size_w cv" "h \<le> size_h cv"
  shows "pixels (fill_background w h cv) (int x, int y) = row_color h y"
  using assms
  by (simp add: fill_background_rows spec_fill_background_rows_def rows_pixel in_bounds_def)

lemma row_color_mono:
  assumes "0 < h" "y1 \<le> y2"
  shows "fst (row_color h y1) \<le> fst (row_color h y2)"
    "fst (snd (row_color h y1)) \<le> fst (snd (row_color h y2))"
    "snd (snd (row_color h y1)) \<le> snd (snd (row_color h y2))"
  using assms by (simp_all add: row_color_div zdiv_mono1)

lemma row_color_top: "0 < h \<Longrightarrow> row_color h 0 = (46, 7, 63)"
  by (simp add: row_color_div)

lemma row_color_bottom: "row_color height (height - 1) = (167, 84, 246)"
  by (simp add: row_color_div height_def)

subsection \<open>The angle ranges\<close>

lemma range_primary: "py_range 0 270 5 = map (\<lambda>k. 5 * int k) [0..<54]"
  by code_simp

lemma range_secondary: "py_range 30 200 8 = map (\<lambda>k. 30 + 8 * int k) [0..<22]"
  by code_simp

lemma range3: "py_range 0 3 1 = [0, 1, 2]"
  by code_simp

lemma curl_points_len: "length curl_points = 54" "length curl2_points = 22"
  by (simp_all add: curl_points_def curl2_points_def range_primary range_secondary)

text \<open>
  C5. With \<^verbatim>\<open>range(0, 270, 5)\<close> and \<^verbatim>\<open>range(30, 200, 8)\<close> the primary curl has 54
  points and the secondary curl 22, so both guards \<^verbatim>\<open>len(points) > 2\<close> hold and both
  polygon fills are executed: the step that draws a curl is its polygon call.
\<close>

theorem curl_polygons_always_filled:
  "length curl_points = 54 \<and> length curl2_points = 22 \<and>
   2 < length curl_points \<and> 2 < length curl2_points \<and>
   draw_curl L cv = draw_polygon L curl_points (RGB 114 9 183) cv \<and>
   draw_curl2 L cv = draw_polygon L curl2_points (RGB 168 85 247) cv"
  by (simp add: draw_curl_def draw_curl2_def curl_points_len)

text \<open>
  C8. The per-pixel background fill is a per-row fill: in every row the inner loop over
  \<open>x\<close> paints the pixels \<open>(x, y)\<close>, \<open>0 \<le> x < w\<close>, with the one colour
  \<open>(int(46 + 122 y / h), int(7 + 78 y / h), int(63 + 184 y / h))\<close>, which is one whole-row fill,
  and the two nested loops give the same canvas as one row fill per row.
\<close>

theorem per_pixel_fill_is_row_fill:
  "fill_background w h cv = spec_fill_background_rows w h cv \<and>
   fold (\<lambda>x cv''. draw_point (int x, int y) (fill_of (row_color h y)) cv'') [0..<w] cv
     = fill_row w y (row_color h y) cv \<and>
   row_color h y = (py_int (46 + 122 * (real y / real h)), py_int (7 + 78 * (real y / real h)),
                    py_int (63 + 184 * (real y / real h)))"
  by (simp add: fill_background_rows inner_loop_paint row_color_def)

subsection \<open>The gradient on the canvas\<close>

lemma background_pixel:
  "x < width \<Longrightarrow> y < height \<Longrightarrow> pixels background (int x, int y) = row_color height y"
  by (simp add: background_def fill_background_pixel new_image_def)

lemma row_color_height:
  "row_color height y = (46 + (122 * int y) div 2778, 7 + (78 * int y) div 2778,
                         63 + (184 * int y) div 2778)"
  by (simp add: row_color_div height_def)

text \<open>
  C3. On the canvas with the gradient drawn, the top row has the start colour \<open>(46, 7, 63)\<close>,
  the bottom row \<open>y = height - 1\<close> is within 1 per channel of the end colour
  \<open>(168, 85, 247)\<close>, and for rows \<open>y1 < y2\<close> each channel at \<open>y1\<close> is at most the channel
  at \<open>y2\<close>.
\<close>

theorem gradient_endpoints_and_monotone:
  "(\<forall>x<width. pixels background (int x, 0) = (46, 7, 63)) \<and>
   (\<forall>x<width. case pixels background (int x, int (height - 1)) of
                 (r, g, b) \<Rightarrow> \<bar>r - 168\<bar> \<le> 1 \<and> \<bar>g - 85\<bar> \<le> 1 \<and> \<bar>b - 247\<bar> \<le> 1) \<and>
   (\<forall>x1 x2 y1 y2. x1 < width \<and> x2 < width \<and> y1 < y2 \<and> y2 < height \<longrightarrow>
      (case (pixels background (int x1, int y1), pixels background (int x2, int y2)) of
         ((r1, g1, b1), (r2, g2, b2)) \<Rightarrow> r1 \<le> r2 \<and> g1 \<le> g2 \<and> b1 \<le> b2))"
proof (intro conjI allI impI)
  fix x assume "x < width"
  then have "pixels background (int x, int 0) = row_color height 0"
    by (intro background_pixel) (simp_all add: height_def)
  then show "pixels background (int x, 0) = (46, 7, 63)"
    by (simp add: row_color_height)
next
  fix x assume "x < width"
  then have "pixels background (int x, int (height - 1)) = row_color height (height - 1)"
    by (intro background_pixel) (simp_all add: height_def)
  then have "pixels background (int x, int (height - 1)) = (167, 84, 246)"
    by (simp only: row_color_bottom)
  then show "case pixels background (int x, int (height - 1)) of
               (r, g, b) \<Rightarrow> \<bar>r - 168\<bar> \<le> 1 \<and> \<bar>g - 85\<bar> \<le> 1 \<and> \<bar>b - 247\<bar> \<le> 1"
    by (simp only: prod.case) simp
next
  fix x1 x2 y1 y2
  assume a: "x1 < width \<and> x2 < width \<and> y1 < y2 \<and> y2 < height"
  then have p1: "pixels background (int x1, int y1) = row_color height y1"
    and p2: "pixels background (int x2, int y2) = row_color height y2"
    by (simp_all add: background_pixel)
  have "122 * int y1 div 2778 \<le> 122 * int y2 div 2778"
    "78 * int y1 div 2778 \<le> 78 * int y2 div 2778"
    "184 * int y1 div 2778 \<le> 184 * int y2 div 2778"
    using a by (simp_all add: zdiv_mono1)
  then show "case (pixels background (int x1, int y1), pixels background (int x2, int y2)) of
         ((r1, g1, b1), (r2, g2, b2)) \<Rightarrow> r1 \<le> r2 \<and> g1 \<le> g2 \<and> b1 \<le> b2"
    by (simp add: p1 p2 row_color_height)
qed

theorem gradient_endpoints_and_monotone_witness:
  "(0::nat) < width \<and> (100::nat) < 200 \<and> (200::nat) < height \<and>
   pixels background (0, 0) = (46, 7, 63) \<and>
   (case pixels background (0, 2777) of
      (r, g, b) \<Rightarrow> \<bar>r - 168\<bar> \<le> 1 \<and> \<bar>g - 85\<bar> \<le> 1 \<and> \<bar>b - 247\<bar> \<le> 1) \<and>
   (case (pixels background (0, 100), pixels background (0, 200)) of
      ((r1, g1, b1), (r2, g2, b2)) \<Rightarrow> r1 \<le> r2 \<and> g1 \<le> g2 \<and> b1 \<le> b2)"
proof -
  have w: "(0::nat) < width" and h: "(200::nat) < height"
    by (simp_all add: width_def height_def)
  note t = gradient_endpoints_and_monotone
  have 1: "pixels background (int 0, 0) = (46, 7, 63)"
    using t [THEN conjunct1, rule_format, OF w] .
  have 2: "case pixels background (int 0, int (height - 1)) of
      (r, g, b) \<Rightarrow> \<bar>r - 168\<bar> \<le> 1 \<and> \<bar>g - 85\<bar> \<le> 1 \<and> \<bar>b - 247\<bar> \<le> 1"
    using t [THEN conjunct2, THEN conjunct1, rule_format, OF w] .
  have "(0::nat) < width \<and> (0::nat) < width \<and> (100::nat) < 200 \<and> (200::nat) < height"
    using w h by simp
  from t [THEN conjunct2, THEN conjunct2, rule_format, OF this]
  have 3: "case (pixels background (int 0, int 100), pixels background (int 0, int 200)) of
      ((r1, g1, b1), (r2, g2, b2)) \<Rightarrow> r1 \<le> r2 \<and> g1 \<le> g2 \<and> b1 \<le> b2" .
  have hm: "int (height - 1) = 2777"
    by (simp add: height_def)
  show ?thesis
    using w h 1 2 3 unfolding hm by simp
qed


subsection \<open>Sizes\<close>

lemma draw_text_simps [simp]:
  "size_w (draw_text L xy s f cv) = size_w cv" "size_h (draw_text L xy s f cv) = size_h cv"
  "in_bounds (draw_text L xy s f cv) = in_bounds cv"
  by (simp_all add: draw_text_def in_bounds_def fun_eq_iff)

lemma pixels_draw_text:
  "pixels (draw_text L xy s f cv) p =
     (if in_bounds cv p then blend_color (coverage L xy s p) (pixels cv p) (getink f)
      else pixels cv p)"
  by (simp add: draw_text_def)

lemma draw_sizes [simp]:
  "size_w (draw_ellipse L bx f cv) = size_w cv" "size_h (draw_ellipse L bx f cv) = size_h cv"
  "size_w (draw_polygon L pts f cv) = size_w cv" "size_h (draw_polygon L pts f cv) = size_h cv"
  by (simp_all add: draw_ellipse_def draw_polygon_def)

lemma background_size [simp]: "size_w background = 1284" "size_h background = 2778"
  by (simp_all add: background_def fill_background_rows spec_fill_background_rows_def
      new_image_def width_def height_def)

lemma logo_canvas_size [simp]: "size_w (logo_canvas L) = 1284" "size_h (logo_canvas L) = 2778"
  by (simp_all add: logo_canvas_def draw_scissors_def draw_curl2_def draw_curl_def
      draw_logo_disk_def draw_glow_def range3 draw_circles_def circles_def Let_def)

lemma do_call_size [simp]:
  "size_w (do_call L c cv) = size_w cv" "size_h (do_call L c cv) = size_h cv"
  by (cases c; simp)+

lemma fold_do_call_size [simp]:
  "size_w (fold (do_call L) cs cv) = size_w cv" "size_h (fold (do_call L) cs cv) = size_h cv"
  by (induction cs arbitrary: cv) simp_all

lemma run_try_size [simp]:
  "size_w (fst (run_try L j cs cv)) = size_w cv" "size_h (fst (run_try L j cs cv)) = size_h cv"
  by (induction cs arbitrary: j cv) (simp_all split: option.splits)

lemma render_size [simp]: "size_w (fst (render L)) = 1284" "size_h (fst (render L)) = 2778"
  by (simp_all add: render_def)

lemma resize_size [simp]: "size_w (resize sz cv) = fst sz" "size_h (resize sz cv) = snd sz"
  by (simp_all add: resize_def)

lemma center_values: "center_x = 642" "center_y = 1189"
  by (simp_all add: center_x_def center_y_def width_def height_def)

lemma text_calls_value:
  "text_calls =
     [TextCall (642, 1489) ''CurlMap'' (RGB 255 255 255),
      TextCall (642, 1549) ''Hair Stylist Platform'' (RGB 255 255 255),
      EllipseCall (589, 1641, 605, 1657) (RGBA 255 255 255 150),
      EllipseCall (634, 1641, 650, 1657) (RGBA 255 255 255 180),
      EllipseCall (679, 1641, 695, 1657) (RGBA 255 255 255 210)]"
  by (simp add: text_calls_def Let_def center_values enumerate_eq_zip upt_rec)

lemma text_calls_length [simp]: "length text_calls = 5"
  by (simp add: text_calls_value)

subsection \<open>The decorative circles\<close>

lemma pixels_draw_ellipse:
  "pixels (draw_ellipse L bx f cv) p = (if in_bounds cv p \<and> ellipse_px L bx p then getink f else pixels cv p)"
  by (simp add: draw_ellipse_def pixels_paint)

lemma in_bounds_draw_ellipse [simp]: "in_bounds (draw_ellipse L bx f cv) = in_bounds cv"
  by (simp add: draw_ellipse_def)

lemma background_at_first_circle: "pixels background (200, 300) = (59, 15, 82)"
proof -
  have "pixels background (int 200, int 300) = row_color height 300"
    by (rule background_pixel) (simp_all add: width_def height_def)
  then show ?thesis
    by (simp add: row_color_height)
qed

text \<open>
  C7. What the code does with the four decorative circles: every pixel of the image that
  one of them covers becomes \<open>(255, 255, 255)\<close>, whatever was there before, and every
  other pixel is unchanged. At the centre \<open>(200, 300)\<close> of the first circle the gradient
  is \<open>(59, 15, 82)\<close> and the pixel after the circles is \<open>(255, 255, 255)\<close>: the alpha
  values 25, 35, 20 and 30 have no effect.
\<close>

theorem ambient_circles_opaque_white:
  "pixels (draw_circles L cv) p =
     (if in_bounds cv p \<and>
         (ellipse_px L (140, 240, 260, 360) p \<or> ellipse_px L (955, 355, 1045, 445) p \<or>
          ellipse_px L (75, 2125, 225, 2275) p \<or> ellipse_px L (1050, 1950, 1150, 2050) p)
      then (255, 255, 255) else pixels cv p) \<and>
   pixels background (200, 300) = (59, 15, 82) \<and>
   pixels (draw_circles ref_lib background) (200, 300) = (255, 255, 255)"
proof -
  have g: "pixels (draw_circles L cv) p =
     (if in_bounds cv p \<and>
         (ellipse_px L (140, 240, 260, 360) p \<or> ellipse_px L (955, 355, 1045, 445) p \<or>
          ellipse_px L (75, 2125, 225, 2275) p \<or> ellipse_px L (1050, 1950, 1150, 2050) p)
      then (255, 255, 255) else pixels cv p)" for L cv p
    by (auto simp: draw_circles_def circles_def pixels_draw_ellipse)
  have ib: "in_bounds background (200, 300)"
    by (simp add: in_bounds_def)
  have cov: "ellipse_px ref_lib (140, 240, 260, 360) (200, 300)"
    by (simp add: ref_lib_def)
  show ?thesis
    using g [of L cv p] g [of ref_lib background "(200, 300)"] ib cov background_at_first_circle
    by simp
qed


subsection \<open>Exceptions\<close>


lemma first_fault_append:
  "first_fault f (xs @ ys) = (case first_fault f xs of Some e \<Rightarrow> Some e | None \<Rightarrow> first_fault f ys)"
  by (induction xs) (simp_all split: option.splits)















subsection \<open>The windows of the resize\<close>







lemma resize_pixel:
  "x < fst sz \<Longrightarrow> y < snd sz \<Longrightarrow>
   pixels (resize sz cv) (int x, int y) =
     (resample cv sz 0 x y, resample cv sz 1 x y, resample cv sz 2 x y)"
  by (simp add: resize_def)


subsection \<open>The files written\<close>








subsection \<open>What is caught and what is not\<close>









subsection \<open>A text step that fails partway\<close>

lemma blend_example: "blend_color 206 (111, 48, 161) (255, 255, 255) = (227, 215, 237)"
  by (simp add: blend_color_def blend_def div255_def)

lemma do_call_pixels:
  "pixels (do_call L (TextCall xy s f) cv) p =
     (if in_bounds cv p then blend_color (coverage L xy s p) (pixels cv p) (getink f)
      else pixels cv p)"
  "pixels (do_call L (EllipseCall bx f) cv) p =
     (if in_bounds cv p \<and> ellipse_px L bx p then getink f else pixels cv p)"
  by (simp_all add: pixels_draw_text pixels_draw_ellipse)





subsection \<open>The logo glyph\<close>



















text \<open>
  C6. The vertices of the primary curl are the points of the specification: for the angles
  0, 5, ..., 265 degrees (54 angles, the stop value 270 of the range is not sampled) the
  point at distance \<open>80 + 30 sin (2 angle)\<close> and direction \<open>angle\<close> from the centre
  \<open>(width / 2, height / 2 - 200 - 30)\<close>. The polygon of these vertices is painted with
  the ink \<open>(114, 9, 183)\<close>: a pixel of the canvas that the polygon covers becomes exactly
  this colour, every other pixel is kept.
\<close>

theorem primary_curl_vertices:
  "curl_points = spec_primary_curl \<and>
   length curl_points = 54 \<and>
   hd curl_points = spec_curl_vertex 0 \<and> last curl_points = spec_curl_vertex 265 \<and>
   (\<forall>L cv. draw_curl L cv = draw_polygon L spec_primary_curl (RGB 114 9 183) cv) \<and>
   (\<forall>L cv p. pixels (draw_curl L cv) p =
      (if in_bounds cv p \<and> polygon_px L spec_primary_curl p then (114, 9, 183)
       else pixels cv p))"
proof -
  have v: "\<And>k. (let radius = 80 + 30 * sin (radians (real_of_int (5 * int k * 2)));
                x = real_of_int curl_center_x + radius * cos (radians (real_of_int (5 * int k)));
                y = real_of_int curl_center_y + radius * sin (radians (real_of_int (5 * int k)))
            in (x, y)) = spec_curl_vertex (5 * real k)"
    by (simp add: Let_def spec_curl_vertex_def radians_def curl_center_x_def curl_center_y_def
        center_values width_def height_def algebra_simps)
  have e: "curl_points = spec_primary_curl"
    unfolding curl_points_def spec_primary_curl_def range_primary map_map comp_def
    using v by simp
  have len: "length curl_points = 54" by (rule curl_points_len(1))
  have ne: "spec_primary_curl \<noteq> []"
    using len unfolding e by auto
  have h: "hd spec_primary_curl = spec_curl_vertex 0"
    by (simp add: spec_primary_curl_def hd_map upt_conv_Cons)
  have l: "last spec_primary_curl = spec_curl_vertex 265"
    by (simp add: spec_primary_curl_def last_map)
  have d: "\<And>L cv. draw_curl L cv = draw_polygon L spec_primary_curl (RGB 114 9 183) cv"
    using len by (simp add: draw_curl_def e [symmetric])
  have p: "\<And>L cv p. pixels (draw_curl L cv) p =
      (if in_bounds cv p \<and> polygon_px L spec_primary_curl p then (114, 9, 183)
       else pixels cv p)"
    unfolding d by (simp add: draw_polygon_def pixels_paint)
  show ?thesis
    using e len h l d p by simp
qed

end
